theory Spec2Isabelle
  imports Complex_Main
begin

section \<open>The command retry-executor \<^verbatim>\<open>redo.py\<close>\<close>

text \<open>
  The development embeds the three functions of \<^verbatim>\<open>src/redo.py\<close>:
  \<^verbatim>\<open>evaluate_condition\<close>, \<^verbatim>\<open>execute_command\<close> and \<^verbatim>\<open>main\<close>.

  What the program does to the world is made explicit:
  \<^item> the child process is an oracle \<open>sys_run command timeout k\<close>: what
    \<^verbatim>\<open>subprocess.run(command, ..., timeout=timeout)\<close> does in iteration \<open>k\<close>;
  \<^item> the random generator is an oracle \<open>rnd k\<close>: the value of \<^verbatim>\<open>random()\<close> drawn in
    iteration \<open>k\<close>;
  \<^item> every \<^verbatim>\<open>print\<close>, every \<^verbatim>\<open>subprocess.run\<close>, every \<^verbatim>\<open>time.sleep\<close> and every side
    effect of the evaluated condition is an \<open>event\<close>; a function returns the list of its
    events, in order, with its result;
  \<^item> an exception is a value: \<open>Inl\<close> of a sum, or the outcome \<open>Raised\<close>.

  Python's \<^verbatim>\<open>float\<close> is idealised as \<open>real\<close>: rounding, infinities and NaN are not
  modelled. A character of a string is a code point below 256. Interrupts
  (\<^verbatim>\<open>KeyboardInterrupt\<close>) and failures of \<^verbatim>\<open>print\<close> itself are not modelled either.
\<close>

subsection \<open>Python values, exceptions and expressions\<close>

text \<open>
  The objects the model knows: \<^verbatim>\<open>None\<close>, booleans, integers, strings and built-in
  functions (named).
\<close>

datatype py_val = VNone | VBool bool | VInt int | VStr string | VBuiltin string

datatype py_exc =
    SyntaxError
  | NameError string
  | TypeError
  | AttributeError
  | ValueError
  | OverflowError
  | OtherException string
  | SystemExit int

text \<open>
  All of them are subclasses of \<^verbatim>\<open>Exception\<close> but \<^verbatim>\<open>SystemExit\<close>, which \<^verbatim>\<open>exit(...)\<close>
  raises and \<^verbatim>\<open>except Exception\<close> does not catch. Its argument is the exit status with
  which the interpreter ends the process when the exception leaves the program.
\<close>

fun is_Exception :: "py_exc \<Rightarrow> bool" where
  "is_Exception (SystemExit status) = False"
| "is_Exception e = True"

text \<open>
  The expressions the model knows, as nodes of Python's \<^verbatim>\<open>ast\<close>: constants, names,
  attribute access, one comparison, \<^verbatim>\<open>and\<close>, \<^verbatim>\<open>or\<close>, \<^verbatim>\<open>not\<close>, and calls with
  positional arguments.
\<close>

datatype cmpop = Eq | NotEq | Lt | LtE | Gt | GtE | In | NotIn

datatype py_expr =
    Constant py_val
  | Name string
  | Attribute py_expr string
  | Compare py_expr cmpop py_expr
  | BoolAnd py_expr py_expr
  | BoolOr py_expr py_expr
  | Not py_expr
  | Call py_expr "py_expr list"

text \<open>
  The \<^verbatim>\<open>condition\<close> argument is a string of source text. The model takes what Python's
  compiler makes of it: no expression at all (\<^verbatim>\<open>eval\<close> then raises \<^verbatim>\<open>SyntaxError\<close>), or
  an expression.
\<close>

datatype condition = Unparsable | Parsed py_expr

subsection \<open>Events\<close>

text \<open>
  One constructor of \<open>message\<close> per \<^verbatim>\<open>print\<close> statement of the source, with the values the
  statement formats (not the formatted text).
\<close>

datatype message =
    ErrorEvaluating py_exc          \<comment> \<open>\<^verbatim>\<open>Error evaluating condition: {e}\<close>\<close>
  | AttemptHeader int int           \<comment> \<open>\<^verbatim>\<open>Attempt {attempt}/{attempts}:\<close>\<close>
  | CommandLine "string list"       \<comment> \<open>\<^verbatim>\<open>Command: {' '.join(command)}\<close>\<close>
  | ExitCode int                    \<comment> \<open>\<^verbatim>\<open>Exit Code: {result.returncode}\<close>\<close>
  | StdoutText string               \<comment> \<open>\<^verbatim>\<open>Stdout: {stdout.strip()}\<close>\<close>
  | StderrText string               \<comment> \<open>\<^verbatim>\<open>Stderr: {stderr.strip()}\<close>\<close>
  | ConditionMet                    \<comment> \<open>\<^verbatim>\<open>Condition met. Exiting.\<close>\<close>
  | ConditionNotMet                 \<comment> \<open>\<^verbatim>\<open>Condition not met. Retrying...\<close>\<close>
  | TimedOut real                   \<comment> \<open>\<^verbatim>\<open>Command timed out after {timeout} seconds.\<close>\<close>
  | ErrorExecuting string           \<comment> \<open>\<^verbatim>\<open>Error executing command: {e}\<close>\<close>
  | Sleeping real                   \<comment> \<open>\<^verbatim>\<open>Sleeping for {sleep_time:.2f} seconds before next attempt...\<close>\<close>
  | MaxAttemptsReached              \<comment> \<open>\<^verbatim>\<open>Maximum attempts reached. Exiting.\<close>\<close>
  | NoCommand                       \<comment> \<open>\<^verbatim>\<open>Error: No command specified.\<close>\<close>

datatype event =
    Run int "string list" real      \<comment> \<open>iteration \<open>attempt\<close> called \<^verbatim>\<open>subprocess.run(command, timeout=timeout)\<close>\<close>
  | Print message
  | Sleep real                      \<comment> \<open>\<^verbatim>\<open>time.sleep(sleep_time)\<close> returned\<close>
  | Effect string "py_val list"     \<comment> \<open>the evaluated condition called a built-in that acts on the world\<close>

subsection \<open>The Python runtime\<close>

text \<open>
  \<^verbatim>\<open>eval\<close> and \<^verbatim>\<open>time.sleep\<close> are the interpreter's, not this repository's. The parts of
  the interpreter that the model does not fix are a parameter: the built-in namespace,
  attribute lookup on a value, what calling a built-in function does (\<open>rt_call rt f vs\<close>:
  whether the call acts on the world, and its result), and the range of \<^verbatim>\<open>time.sleep\<close>
  (\<open>rt_sleep rt secs\<close>: the exception that \<^verbatim>\<open>time.sleep(secs)\<close> raises because the duration
  is out of range, if any; the range depends on the platform and on the clock).
\<close>

record runtime =
  rt_builtins :: "string \<Rightarrow> py_val option"
  rt_getattr :: "py_val \<Rightarrow> string \<Rightarrow> py_exc + py_val"
  rt_call :: "string \<Rightarrow> py_val list \<Rightarrow> bool \<times> (py_exc + py_val)"
  rt_sleep :: "real \<Rightarrow> py_exc option"

text \<open>Truth value testing: \<^verbatim>\<open>None\<close>, \<^verbatim>\<open>False\<close>, \<^verbatim>\<open>0\<close> and \<^verbatim>\<open>''\<close> are false.\<close>

fun truthy :: "py_val \<Rightarrow> bool" where
  "truthy VNone = False"
| "truthy (VBool b) = b"
| "truthy (VInt i) = (i \<noteq> 0)"
| "truthy (VStr s) = (s \<noteq> [])"
| "truthy (VBuiltin f) = True"

text \<open>\<^verbatim>\<open>bool\<close> is a subclass of \<^verbatim>\<open>int\<close>: \<^verbatim>\<open>True\<close> is 1 and \<^verbatim>\<open>False\<close> is 0.\<close>

fun as_number :: "py_val \<Rightarrow> int option" where
  "as_number (VBool b) = Some (if b then 1 else 0)"
| "as_number (VInt i) = Some i"
| "as_number v = None"

fun py_equal :: "py_val \<Rightarrow> py_val \<Rightarrow> bool" where
  "py_equal VNone VNone = True"
| "py_equal (VStr s) (VStr t) = (s = t)"
| "py_equal (VBuiltin f) (VBuiltin g) = (f = g)"
| "py_equal a b =
     (case (as_number a, as_number b) of (Some i, Some j) \<Rightarrow> i = j | _ \<Rightarrow> False)"

text \<open>Strings are ordered lexicographically by code point.\<close>

fun str_less :: "string \<Rightarrow> string \<Rightarrow> bool" where
  "str_less [] [] = False"
| "str_less [] (y # ys) = True"
| "str_less (x # xs) [] = False"
| "str_less (x # xs) (y # ys) =
     ((of_char x :: nat) < of_char y \<or> (x = y \<and> str_less xs ys))"

text \<open>
  The ordering comparisons: defined between two numbers and between two strings, a
  \<^verbatim>\<open>TypeError\<close> otherwise. The argument is the test \<open>a < b\<close> on numbers.
\<close>

definition py_order :: "(int \<Rightarrow> int \<Rightarrow> bool) \<Rightarrow> (string \<Rightarrow> string \<Rightarrow> bool) \<Rightarrow>
    py_val \<Rightarrow> py_val \<Rightarrow> py_exc + py_val" where
  "py_order num str a b =
     (case (as_number a, as_number b) of
        (Some i, Some j) \<Rightarrow> Inr (VBool (num i j))
      | _ \<Rightarrow> (case (a, b) of
                (VStr s, VStr t) \<Rightarrow> Inr (VBool (str s t))
              | _ \<Rightarrow> Inl TypeError))"

fun starts_with :: "string \<Rightarrow> string \<Rightarrow> bool" where
  "starts_with [] ys = True"
| "starts_with (x # xs) [] = False"
| "starts_with (x # xs) (y # ys) = (x = y \<and> starts_with xs ys)"

fun contains :: "string \<Rightarrow> string \<Rightarrow> bool" where
  "contains needle [] = (needle = [])"
| "contains needle (y # ys) = (starts_with needle (y # ys) \<or> contains needle ys)"

text \<open>\<^verbatim>\<open>a in b\<close>: substring test on two strings, a \<^verbatim>\<open>TypeError\<close> otherwise.\<close>

fun py_in :: "py_val \<Rightarrow> py_val \<Rightarrow> py_exc + bool" where
  "py_in (VStr s) (VStr t) = Inr (contains s t)"
| "py_in a b = Inl TypeError"

fun py_compare :: "cmpop \<Rightarrow> py_val \<Rightarrow> py_val \<Rightarrow> py_exc + py_val" where
  "py_compare Eq a b = Inr (VBool (py_equal a b))"
| "py_compare NotEq a b = Inr (VBool (\<not> py_equal a b))"
| "py_compare Lt a b = py_order (\<lambda>i j. i < j) (\<lambda>s t. str_less s t) a b"
| "py_compare LtE a b = py_order (\<lambda>i j. i \<le> j) (\<lambda>s t. \<not> str_less t s) a b"
| "py_compare Gt a b = py_order (\<lambda>i j. i > j) (\<lambda>s t. str_less t s) a b"
| "py_compare GtE a b = py_order (\<lambda>i j. i \<ge> j) (\<lambda>s t. \<not> str_less s t) a b"
| "py_compare In a b = (case py_in a b of Inl x \<Rightarrow> Inl x | Inr r \<Rightarrow> Inr (VBool r))"
| "py_compare NotIn a b = (case py_in a b of Inl x \<Rightarrow> Inl x | Inr r \<Rightarrow> Inr (VBool (\<not> r)))"

subsection \<open>Evaluation of an expression\<close>

text \<open>
  \<open>py_eval rt g e\<close> evaluates \<open>e\<close> with the globals \<open>g\<close>: a name is looked up in \<open>g\<close>, then
  among the built-ins, and is a \<^verbatim>\<open>NameError\<close> otherwise. Operands are evaluated left to
  right, \<^verbatim>\<open>and\<close> and \<^verbatim>\<open>or\<close> short-circuit and return an operand, and an exception ends
  the evaluation, keeping the events before it.
\<close>

fun py_eval :: "runtime \<Rightarrow> (string \<rightharpoonup> py_val) \<Rightarrow> py_expr \<Rightarrow> event list \<times> (py_exc + py_val)"
  and py_eval_args :: "runtime \<Rightarrow> (string \<rightharpoonup> py_val) \<Rightarrow> py_expr list \<Rightarrow>
    event list \<times> (py_exc + py_val list)" where
  "py_eval rt g (Constant v) = ([], Inr v)"
| "py_eval rt g (Name n) =
     (case g n of
        Some v \<Rightarrow> ([], Inr v)
      | None \<Rightarrow> (case rt_builtins rt n of
                  Some v \<Rightarrow> ([], Inr v)
                | None \<Rightarrow> ([], Inl (NameError n))))"
| "py_eval rt g (Attribute e a) =
     (case py_eval rt g e of
        (ev, Inl x) \<Rightarrow> (ev, Inl x)
      | (ev, Inr v) \<Rightarrow> (ev, rt_getattr rt v a))"
| "py_eval rt g (Compare l op r) =
     (case py_eval rt g l of
        (ev, Inl x) \<Rightarrow> (ev, Inl x)
      | (ev, Inr a) \<Rightarrow>
          (case py_eval rt g r of
             (ev', Inl x) \<Rightarrow> (ev @ ev', Inl x)
           | (ev', Inr b) \<Rightarrow> (ev @ ev', py_compare op a b)))"
| "py_eval rt g (BoolAnd l r) =
     (case py_eval rt g l of
        (ev, Inl x) \<Rightarrow> (ev, Inl x)
      | (ev, Inr a) \<Rightarrow>
          (if truthy a then (case py_eval rt g r of (ev', res) \<Rightarrow> (ev @ ev', res))
           else (ev, Inr a)))"
| "py_eval rt g (BoolOr l r) =
     (case py_eval rt g l of
        (ev, Inl x) \<Rightarrow> (ev, Inl x)
      | (ev, Inr a) \<Rightarrow>
          (if truthy a then (ev, Inr a)
           else (case py_eval rt g r of (ev', res) \<Rightarrow> (ev @ ev', res))))"
| "py_eval rt g (Not e) =
     (case py_eval rt g e of
        (ev, Inl x) \<Rightarrow> (ev, Inl x)
      | (ev, Inr a) \<Rightarrow> (ev, Inr (VBool (\<not> truthy a))))"
| "py_eval rt g (Call f args) =
     (case py_eval rt g f of
        (ev, Inl x) \<Rightarrow> (ev, Inl x)
      | (ev, Inr fv) \<Rightarrow>
          (case py_eval_args rt g args of
             (ev', Inl x) \<Rightarrow> (ev @ ev', Inl x)
           | (ev', Inr vs) \<Rightarrow>
               (case fv of
                  VBuiltin n \<Rightarrow>
                    (case rt_call rt n vs of
                       (acts, res) \<Rightarrow> (ev @ ev' @ (if acts then [Effect n vs] else []), res))
                | _ \<Rightarrow> (ev @ ev', Inl TypeError))))"
| "py_eval_args rt g [] = ([], Inr [])"
| "py_eval_args rt g (e # es) =
     (case py_eval rt g e of
        (ev, Inl x) \<Rightarrow> (ev, Inl x)
      | (ev, Inr v) \<Rightarrow>
          (case py_eval_args rt g es of
             (ev', Inl x) \<Rightarrow> (ev @ ev', Inl x)
           | (ev', Inr vs) \<Rightarrow> (ev @ ev', Inr (v # vs))))"

text \<open>\<^verbatim>\<open>eval(condition, globals)\<close>: compile, then evaluate.\<close>

definition builtin_eval :: "runtime \<Rightarrow> condition \<Rightarrow> (string \<rightharpoonup> py_val) \<Rightarrow> event list \<times> (py_exc + py_val)" where
  "builtin_eval rt condition g =
     (case condition of
        Unparsable \<Rightarrow> ([], Inl SyntaxError)
      | Parsed e \<Rightarrow> py_eval rt g e)"

subsection \<open>\<^verbatim>\<open>evaluate_condition\<close>\<close>

text \<open>
  \<^verbatim>\<open>
  def evaluate_condition(stdout, stderr, condition):
      try:
          return eval(condition, {"stdout": stdout, "stderr": stderr})
      except Exception as e:
          print(f"Error evaluating condition: {e}")
          return False
  \<close>
  The globals hold \<^verbatim>\<open>stdout\<close> and \<^verbatim>\<open>stderr\<close> and nothing else; the exit code is not
  passed to the function. The handler catches the subclasses of \<^verbatim>\<open>Exception\<close>; any other
  exception leaves the function (\<open>Inl\<close>).
\<close>

definition evaluate_condition :: "runtime \<Rightarrow> string \<Rightarrow> string \<Rightarrow> condition \<Rightarrow>
    event list \<times> (py_exc + py_val)" where
  "evaluate_condition rt stdout stderr condition =
     (case builtin_eval rt condition [''stdout'' \<mapsto> VStr stdout, ''stderr'' \<mapsto> VStr stderr] of
        (ev, Inr v) \<Rightarrow> (ev, Inr v)
      | (ev, Inl e) \<Rightarrow>
          (if is_Exception e then (ev @ [Print (ErrorEvaluating e)], Inr (VBool False))
           else (ev, Inl e)))"

subsection \<open>The world: child processes and random numbers\<close>

text \<open>
  What \<^verbatim>\<open>subprocess.run\<close> does: the process completes with an exit code and its two
  captured streams, or \<^verbatim>\<open>subprocess.TimeoutExpired\<close> is raised, or another exception
  is (file not found, permission denied, any failure to spawn).
\<close>

datatype proc_result =
    Completed int string string
  | TimeoutExpired
  | RunError string

text \<open>How a call ends: it returns a value or an exception leaves it.\<close>

datatype outcome = Returned bool | Raised py_exc

text \<open>\<^verbatim>\<open>random.uniform(a, b)\<close> is \<^verbatim>\<open>a + (b - a) * self.random()\<close>; \<open>r\<close> is the draw.\<close>

definition uniform :: "real \<Rightarrow> real \<Rightarrow> real \<Rightarrow> real" where
  "uniform r a b = a + (b - a) * r"

subsection \<open>\<^verbatim>\<open>execute_command\<close>\<close>

text \<open>
  \<^verbatim>\<open>str.strip()\<close> removes the leading and the trailing whitespace: the characters for
  which \<^verbatim>\<open>str.isspace\<close> holds, which below 256 are the code points 9 to 13, 28 to 32, 133
  and 160.
\<close>

definition isspace :: "char \<Rightarrow> bool" where
  "isspace c =
     (let n = (of_char c :: nat)
      in (9 \<le> n \<and> n \<le> 13) \<or> (28 \<le> n \<and> n \<le> 32) \<or> n = 133 \<or> n = 160)"

definition strip :: "string \<Rightarrow> string" where
  "strip s = rev (dropWhile isspace (rev (dropWhile isspace s)))"

text \<open>
  The \<^verbatim>\<open>try\<close> statement of one iteration (lines 24 to 50). \<open>Inr\<close> of a boolean says whether
  the function returns \<^verbatim>\<open>True\<close> here; both \<^verbatim>\<open>except\<close> clauses fall through to the code
  after the \<^verbatim>\<open>try\<close>. \<open>Inl\<close> is an exception that leaves the statement: one that left
  \<^verbatim>\<open>evaluate_condition\<close> is not a subclass of \<^verbatim>\<open>Exception\<close>, and neither clause catches it.
\<close>

definition attempt_body :: "runtime \<Rightarrow> (string list \<Rightarrow> real \<Rightarrow> int \<Rightarrow> proc_result) \<Rightarrow>
    string list \<Rightarrow> condition \<Rightarrow> int \<Rightarrow> real \<Rightarrow> int \<Rightarrow> event list \<times> (py_exc + bool)" where
  "attempt_body rt sys_run command condition attempts timeout attempt =
     (case sys_run command timeout attempt of
        Completed returncode stdout stderr \<Rightarrow>
          (case evaluate_condition rt stdout stderr condition of
             (ev, Inl x) \<Rightarrow> ([Run attempt command timeout] @ ev, Inl x)
           | (ev, Inr success) \<Rightarrow>
               ([Run attempt command timeout] @ ev @
                [Print (AttemptHeader attempt attempts), Print (CommandLine command),
                 Print (ExitCode returncode), Print (StdoutText (strip stdout)),
                 Print (StderrText (strip stderr))] @
                (if truthy success then [Print ConditionMet] else [Print ConditionNotMet]),
                Inr (truthy success)))
      | TimeoutExpired \<Rightarrow> ([Run attempt command timeout, Print (TimedOut timeout)], Inr False)
      | RunError e \<Rightarrow> ([Run attempt command timeout, Print (ErrorExecuting e)], Inr False))"

text \<open>
  The code after the \<^verbatim>\<open>try\<close> statement (lines 52 to 57):
  \<^verbatim>\<open>
  sleep_time = min(delay * (2 ** (attempt - 1)), max_delay)
  if jitter > 0:
      sleep_time += random.uniform(0, jitter)
  print(f"Sleeping for {sleep_time:.2f} seconds before next attempt...")
  time.sleep(sleep_time)
  \<close>
  \<^verbatim>\<open>delay\<close> is a float and \<^verbatim>\<open>2 ** (attempt - 1)\<close> an integer: the product converts the
  integer, which raises \<^verbatim>\<open>OverflowError\<close> from \<^verbatim>\<open>2 ** 1024\<close> on. \<^verbatim>\<open>time.sleep\<close> raises
  \<^verbatim>\<open>OverflowError\<close> or \<^verbatim>\<open>OSError\<close> on an argument that is out of the range of the
  platform, and \<^verbatim>\<open>ValueError\<close> on a negative one that is in range. None of this is inside
  a \<^verbatim>\<open>try\<close>.
\<close>

definition time_sleep :: "runtime \<Rightarrow> real \<Rightarrow> py_exc option" where
  "time_sleep rt secs =
     (case rt_sleep rt secs of
        Some x \<Rightarrow> Some x
      | None \<Rightarrow> (if secs < 0 then Some ValueError else None))"

definition backoff_sleep :: "runtime \<Rightarrow> (int \<Rightarrow> real) \<Rightarrow> real \<Rightarrow> real \<Rightarrow> real \<Rightarrow> int \<Rightarrow>
    event list \<times> py_exc option" where
  "backoff_sleep rt rnd delay max_delay jitter attempt =
     (if 1024 \<le> attempt - 1 then ([], Some OverflowError)
      else
        let capped = min (delay * 2 ^ nat (attempt - 1)) max_delay;
            sleep_time = (if jitter > 0 then capped + uniform (rnd attempt) 0 jitter
                          else capped)
        in (case time_sleep rt sleep_time of
              Some x \<Rightarrow> ([Print (Sleeping sleep_time)], Some x)
            | None \<Rightarrow> ([Print (Sleeping sleep_time), Sleep sleep_time], None)))"

text \<open>
  The \<^verbatim>\<open>for\<close> loop over the values of \<^verbatim>\<open>range(1, attempts + 1)\<close>, and the two statements
  after it. \<open>body\<close> is the \<^verbatim>\<open>try\<close> statement of an iteration and \<open>pause\<close> the code after
  it. An exception that leaves either of them leaves the function.
\<close>

fun retry_loop :: "(int \<Rightarrow> event list \<times> (py_exc + bool)) \<Rightarrow>
    (int \<Rightarrow> event list \<times> py_exc option) \<Rightarrow> int list \<Rightarrow> event list \<times> outcome" where
  "retry_loop body pause [] = ([Print MaxAttemptsReached], Returned False)"
| "retry_loop body pause (attempt # rest) =
     (case body attempt of
        (ev, Inl x) \<Rightarrow> (ev, Raised x)
      | (ev, Inr success) \<Rightarrow>
          (if success then (ev, Returned True)
           else
             (case pause attempt of
                (ev', Some x) \<Rightarrow> (ev @ ev', Raised x)
              | (ev', None) \<Rightarrow>
                  (case retry_loop body pause rest of
                     (ev'', res) \<Rightarrow> (ev @ ev' @ ev'', res)))))"

text \<open>
  \<^verbatim>\<open>def execute_command(command, condition, attempts, delay, backoff, max_delay, jitter, timeout)\<close>.
  The parameter \<^verbatim>\<open>backoff\<close> is not used in the body.
\<close>

definition execute_command :: "runtime \<Rightarrow> (string list \<Rightarrow> real \<Rightarrow> int \<Rightarrow> proc_result) \<Rightarrow>
    (int \<Rightarrow> real) \<Rightarrow> string list \<Rightarrow> condition \<Rightarrow> int \<Rightarrow> real \<Rightarrow> real \<Rightarrow> real \<Rightarrow> real \<Rightarrow>
    real \<Rightarrow> event list \<times> outcome" where
  "execute_command rt sys_run rnd command condition attempts delay backoff max_delay jitter timeout =
     retry_loop
       (attempt_body rt sys_run command condition attempts timeout)
       (backoff_sleep rt rnd delay max_delay jitter)
       [1..attempts]"

subsection \<open>\<^verbatim>\<open>main\<close>\<close>

text \<open>The namespace that \<^verbatim>\<open>parser.parse_args()\<close> returns.\<close>

record args =
  args_command :: "string list"
  args_attempts :: int
  args_delay :: real
  args_backoff :: real
  args_max_delay :: real
  args_jitter :: real
  args_timeout :: real
  args_condition :: condition

text \<open>The default of \<^verbatim>\<open>-c\<close> is the text \<^verbatim>\<open>result.returncode == 0\<close>.\<close>

definition default_condition :: condition where
  "default_condition =
     Parsed (Compare (Attribute (Name ''result'') ''returncode'') Eq (Constant (VInt 0)))"

text \<open>The namespace when only the positional command is given.\<close>

definition default_args :: "string list \<Rightarrow> args" where
  "default_args command =
     \<lparr>args_command = command, args_attempts = 5, args_delay = 1, args_backoff = 2,
      args_max_delay = 30, args_jitter = 0, args_timeout = 10,
      args_condition = default_condition\<rparr>"

text \<open>
  The exit status of the process when an exception ends the interpreter: the status of a
  \<^verbatim>\<open>SystemExit\<close>, and 1 (after a traceback) for any other exception.
\<close>

fun status_of_exception :: "py_exc \<Rightarrow> int" where
  "status_of_exception (SystemExit status) = status"
| "status_of_exception e = 1"

text \<open>
  \<open>main\<close> returns the exit status of the process: the argument of \<^verbatim>\<open>sys.exit\<close>, or the
  status of the exception that leaves \<^verbatim>\<open>execute_command\<close>.
\<close>

definition main :: "runtime \<Rightarrow> (string list \<Rightarrow> real \<Rightarrow> int \<Rightarrow> proc_result) \<Rightarrow> (int \<Rightarrow> real) \<Rightarrow>
    args \<Rightarrow> event list \<times> int" where
  "main rt sys_run rnd a =
     (if args_command a = [] then ([Print NoCommand], 1)
      else
        (case execute_command rt sys_run rnd (args_command a) (args_condition a)
                (args_attempts a) (args_delay a) (args_backoff a) (args_max_delay a)
                (args_jitter a) (args_timeout a) of
           (ev, Returned success) \<Rightarrow> (ev, if success then 0 else 1)
         | (ev, Raised x) \<Rightarrow> (ev, status_of_exception x)))"

subsection \<open>Reading a trace\<close>

text \<open>The iterations that called \<^verbatim>\<open>subprocess.run\<close>, and the durations slept, in order.\<close>

fun runs :: "event list \<Rightarrow> int list" where
  "runs [] = []"
| "runs (Run k c t # es) = k # runs es"
| "runs (e # es) = runs es"

fun sleeps :: "event list \<Rightarrow> real list" where
  "sleeps [] = []"
| "sleeps (Sleep t # es) = t # sleeps es"
| "sleeps (e # es) = sleeps es"

text \<open>The side effects of the evaluated condition.\<close>

fun effects :: "event list \<Rightarrow> event list" where
  "effects [] = []"
| "effects (Effect f vs # es) = Effect f vs # effects es"
| "effects (e # es) = effects es"

subsection \<open>A small runtime\<close>

text \<open>
  \<^verbatim>\<open>exit(code)\<close> raises \<^verbatim>\<open>SystemExit\<close>. The exit status that the interpreter makes of the
  code: 0 for \<^verbatim>\<open>None\<close>, the low eight bits of an integer that fits a C \<^verbatim>\<open>long\<close> and 255
  of one that does not, and 1 for any other object.
\<close>

fun status_of_code :: "py_val \<Rightarrow> int" where
  "status_of_code VNone = 0"
| "status_of_code (VBool b) = (if b then 1 else 0)"
| "status_of_code (VInt n) = (if - (2 ^ 63) \<le> n \<and> n < 2 ^ 63 then n mod 256 else 255)"
| "status_of_code (VStr s) = 1"
| "status_of_code (VBuiltin f) = 1"

definition builtin_exit :: "py_val list \<Rightarrow> py_exc + py_val" where
  "builtin_exit vs =
     (case vs of
        [] \<Rightarrow> Inl (SystemExit 0)
      | [code] \<Rightarrow> Inl (SystemExit (status_of_code code))
      | _ \<Rightarrow> Inl TypeError)"

text \<open>
  A runtime with three built-ins, \<^verbatim>\<open>print\<close>, \<^verbatim>\<open>len\<close> and \<^verbatim>\<open>exit\<close>, no attributes, and a
  \<^verbatim>\<open>time.sleep\<close> whose range is nine billion seconds: enough to run the examples below.
\<close>

definition small_runtime :: runtime where
  "small_runtime =
     \<lparr>rt_builtins =
        (\<lambda>n. if n = ''print'' \<or> n = ''len'' \<or> n = ''exit'' then Some (VBuiltin n) else None),
      rt_getattr = (\<lambda>v a. Inl AttributeError),
      rt_call =
        (\<lambda>f vs. if f = ''print'' then (True, Inr VNone)
                else if f = ''exit'' then (False, builtin_exit vs)
                else (case vs of
                        [VStr s] \<Rightarrow> (False, Inr (VInt (int (length s))))
                      | _ \<Rightarrow> (False, Inl TypeError))),
      rt_sleep = (\<lambda>secs. if \<bar>secs\<bar> \<le> 9000000000 then None else Some OverflowError)\<rparr>"

subsection \<open>The predicate of an attempt\<close>

text \<open>
  The predicate is satisfied in iteration \<open>attempt\<close>: the process completed,
  \<^verbatim>\<open>evaluate_condition\<close> returned, and the value it returned is true.
\<close>

definition satisfied :: "runtime \<Rightarrow> (string list \<Rightarrow> real \<Rightarrow> int \<Rightarrow> proc_result) \<Rightarrow>
    string list \<Rightarrow> condition \<Rightarrow> real \<Rightarrow> int \<Rightarrow> bool" where
  "satisfied rt sys_run command condition timeout attempt =
     (case sys_run command timeout attempt of
        Completed returncode stdout stderr \<Rightarrow>
          (case snd (evaluate_condition rt stdout stderr condition) of
             Inr v \<Rightarrow> truthy v
           | Inl x \<Rightarrow> False)
      | _ \<Rightarrow> False)"

subsection \<open>Worlds and conditions for the examples\<close>

text \<open>A command that ends the same way every time, and a generator that draws 0.\<close>

definition exits_with :: "int \<Rightarrow> string \<Rightarrow> string \<Rightarrow> string list \<Rightarrow> real \<Rightarrow> int \<Rightarrow> proc_result" where
  "exits_with returncode stdout stderr command timeout k = Completed returncode stdout stderr"

definition zero_draws :: "int \<Rightarrow> real" where
  "zero_draws k = 0"

text \<open>The condition \<^verbatim>\<open>'<s>' in stdout\<close>.\<close>

definition stdout_has :: "string \<Rightarrow> condition" where
  "stdout_has s = Parsed (Compare (Constant (VStr s)) In (Name ''stdout''))"

text \<open>The condition \<^verbatim>\<open>exit(<n>)\<close>.\<close>

definition exit_with :: "int \<Rightarrow> condition" where
  "exit_with n = Parsed (Call (Name ''exit'') [Constant (VInt n)])"

text \<open>A command whose first run times out and whose later runs print \<^verbatim>\<open>ok\<close> and exit with 0.\<close>

definition first_times_out :: "string list \<Rightarrow> real \<Rightarrow> int \<Rightarrow> proc_result" where
  "first_times_out command timeout k = (if k = 1 then TimeoutExpired else Completed 0 ''ok'' [])"

text \<open>The world \<open>sys_run\<close> with the result of iteration \<open>k\<close> replaced by \<open>r\<close>.\<close>

definition replace_result :: "(string list \<Rightarrow> real \<Rightarrow> int \<Rightarrow> proc_result) \<Rightarrow> int \<Rightarrow> proc_result \<Rightarrow>
    string list \<Rightarrow> real \<Rightarrow> int \<Rightarrow> proc_result" where
  "replace_result sys_run k r command timeout j = (if j = k then r else sys_run command timeout j)"

subsection \<open>The attempts of a loop that no exception leaves\<close>

text \<open>Every duration from 0 to \<open>limit\<close> is in the range of \<^verbatim>\<open>time.sleep\<close>.\<close>

definition sleep_accepts :: "runtime \<Rightarrow> real \<Rightarrow> bool" where
  "sleep_accepts rt limit = (\<forall>secs. 0 \<le> secs \<and> secs \<le> limit \<longrightarrow> rt_sleep rt secs = None)"

text \<open>The iterations up to and including the first one that succeeds, all of them if none does.\<close>

fun until_success :: "(int \<Rightarrow> bool) \<Rightarrow> int list \<Rightarrow> int list" where
  "until_success ok [] = []"
| "until_success ok (k # ks) = (if ok k then [k] else k # until_success ok ks)"

subsection \<open>The words of the specification\<close>

text \<open>
  The delay of the specification's backoff scheduler, before jitter:
  \<^verbatim>\<open>capped = min(initialDelay * backoffMultiplier^(attemptIndex - 1), maxDelay)\<close>.
\<close>

definition spec_capped_delay :: "real \<Rightarrow> real \<Rightarrow> real \<Rightarrow> int \<Rightarrow> real" where
  "spec_capped_delay initialDelay backoffMultiplier maxDelay attemptIndex =
     min (initialDelay * backoffMultiplier ^ nat (attemptIndex - 1)) maxDelay"

text \<open>
  The restricted predicate grammar of the specification: boolean combinators, comparisons
  and containment, named values, and literal integers and strings. Of the named values the
  program binds two, \<^verbatim>\<open>stdout\<close> and \<^verbatim>\<open>stderr\<close>.
\<close>

fun spec_grammar :: "py_expr \<Rightarrow> bool" where
  "spec_grammar (Constant (VInt i)) = True"
| "spec_grammar (Constant (VStr s)) = True"
| "spec_grammar (Constant v) = False"
| "spec_grammar (Name n) = (n = ''stdout'' \<or> n = ''stderr'')"
| "spec_grammar (Compare l op r) = (spec_grammar l \<and> spec_grammar r)"
| "spec_grammar (BoolAnd l r) = (spec_grammar l \<and> spec_grammar r)"
| "spec_grammar (BoolOr l r) = (spec_grammar l \<and> spec_grammar r)"
| "spec_grammar (Not e) = spec_grammar e"
| "spec_grammar (Attribute e a) = False"
| "spec_grammar (Call f args) = False"

section \<open>Properties\<close>

subsection \<open>Traces of the parts\<close>

lemma runs_append [simp]: "runs (xs @ ys) = runs xs @ runs ys"
  by (induction xs rule: runs.induct) simp_all

lemma sleeps_append [simp]: "sleeps (xs @ ys) = sleeps xs @ sleeps ys"
  by (induction xs rule: sleeps.induct) simp_all

lemma effects_append [simp]: "effects (xs @ ys) = effects xs @ effects ys"
  by (induction xs rule: effects.induct) simp_all

text \<open>Evaluating an expression neither runs the command nor sleeps.\<close>

lemma py_eval_quiet:
  "py_eval rt g e = (ev, r) \<Longrightarrow> runs ev = [] \<and> sleeps ev = []"
  "py_eval_args rt g es = (ev, rs) \<Longrightarrow> runs ev = [] \<and> sleeps ev = []"
  by (induction rt g e and rt g es arbitrary: ev r and ev rs rule: py_eval_py_eval_args.induct)
     (auto split: prod.splits sum.splits option.splits py_val.splits if_splits)

lemma evaluate_condition_quiet:
  "evaluate_condition rt so se c = (ev, v) \<Longrightarrow> runs ev = [] \<and> sleeps ev = []"
  by (auto simp: evaluate_condition_def builtin_eval_def
      split: prod.splits sum.splits condition.splits if_splits dest: py_eval_quiet(1))

lemma runs_attempt_body [simp]:
  "runs (fst (attempt_body rt sys_run command condition attempts timeout k)) = [k]"
  by (auto simp: attempt_body_def split: proc_result.splits prod.splits sum.splits
      dest: evaluate_condition_quiet)

lemma sleeps_attempt_body [simp]:
  "sleeps (fst (attempt_body rt sys_run command condition attempts timeout k)) = []"
  by (auto simp: attempt_body_def split: proc_result.splits prod.splits sum.splits
      dest: evaluate_condition_quiet)

lemma runs_backoff_sleep [simp]:
  "runs (fst (backoff_sleep rt rnd delay max_delay jitter k)) = []"
  by (simp add: backoff_sleep_def Let_def split: option.splits)

lemma snd_attempt_body:
  "snd (attempt_body rt sys_run command condition attempts timeout k) = Inr True \<longleftrightarrow>
     satisfied rt sys_run command condition timeout k"
  by (auto simp: attempt_body_def satisfied_def split: proc_result.splits prod.splits sum.splits)

subsection \<open>The loop\<close>


text \<open>
  When no exception leaves the body or the code after it in any iteration, the loop runs
  the iterations up to the first success and returns whether there was one.
\<close>

lemma retry_loop_no_exception:
  assumes "\<And>k. runs (fst (body k)) = [k]" and "\<And>k. runs (fst (pause k)) = []"
    and "\<forall>k \<in> set ks. snd (pause k) = None \<and> (\<exists>b. snd (body k) = Inr b)"
  shows "runs (fst (retry_loop body pause ks)) =
           until_success (\<lambda>k. snd (body k) = Inr True) ks \<and>
         snd (retry_loop body pause ks) = Returned (\<exists>k \<in> set ks. snd (body k) = Inr True)"
  using assms(3)
proof (induction ks)
  case Nil
  show ?case by simp
next
  case (Cons k ks)
  obtain ev b where b: "body k = (ev, Inr b)" using Cons.prems by (cases "body k") auto
  obtain ev' where p: "pause k = (ev', None)" using Cons.prems by (cases "pause k") auto
  obtain ev'' res where r: "retry_loop body pause ks = (ev'', res)"
    by (cases "retry_loop body pause ks")
  from assms(1)[of k] b have rb: "runs ev = [k]" by simp
  from assms(2)[of k] p have rp: "runs ev' = []" by simp
  from Cons have ih: "runs ev'' = until_success (\<lambda>k. snd (body k) = Inr True) ks"
      "res = Returned (\<exists>k \<in> set ks. snd (body k) = Inr True)"
    using r by simp_all
  show ?case
  proof (cases b)
    case True
    with b rb show ?thesis by simp
  next
    case False
    with b p r rb rp ih show ?thesis by simp
  qed
qed

lemma until_success_never: "\<forall>k \<in> set ks. \<not> ok k \<Longrightarrow> until_success ok ks = ks"
  by (induction ks) simp_all

lemma until_success_upto:
  "i \<le> j \<Longrightarrow> until_success ok [i..j] =
     [i..(case List.find ok [i..j] of Some s \<Rightarrow> s | None \<Rightarrow> j)]"
proof (induction i j rule: upto.induct)
  case (1 i j)
  show ?case
  proof (cases "ok i")
    case True
    with "1.prems" show ?thesis by (simp add: upto_rec1[of i j])
  next
    case False
    show ?thesis
    proof (cases "i = j")
      case True
      with False show ?thesis by simp
    next
      case ne: False
      with "1.prems" have lt: "i + 1 \<le> j" by simp
      from "1.IH"[OF "1.prems" lt]
      have ih: "until_success ok [i + 1..j] =
          [i + 1..(case List.find ok [i + 1..j] of Some s \<Rightarrow> s | None \<Rightarrow> j)]" .
      have ge: "i + 1 \<le> (case List.find ok [i + 1..j] of Some s \<Rightarrow> s | None \<Rightarrow> j)"
        using lt by (auto split: option.splits simp: find_Some_iff)
      have "[i..(case List.find ok [i + 1..j] of Some s \<Rightarrow> s | None \<Rightarrow> j)] =
            i # [i + 1..(case List.find ok [i + 1..j] of Some s \<Rightarrow> s | None \<Rightarrow> j)]"
        using ge by (simp add: upto_rec1)
      with False ih "1.prems" show ?thesis by (simp add: upto_rec1[of i j])
    qed
  qed
qed

text \<open>Iterations that fail and raise nothing are passed.\<close>

lemma retry_loop_append:
  assumes "\<And>k. runs (fst (body k)) = [k]" and "\<And>k. runs (fst (pause k)) = []"
    and "\<forall>k \<in> set ks. snd (body k) = Inr False \<and> snd (pause k) = None"
  shows "runs (fst (retry_loop body pause (ks @ rest))) =
           ks @ runs (fst (retry_loop body pause rest)) \<and>
         snd (retry_loop body pause (ks @ rest)) = snd (retry_loop body pause rest)"
  using assms(3)
proof (induction ks)
  case Nil
  show ?case by simp
next
  case (Cons k ks)
  obtain ev where b: "body k = (ev, Inr False)" using Cons.prems by (cases "body k") auto
  obtain ev' where p: "pause k = (ev', None)" using Cons.prems by (cases "pause k") auto
  obtain ev'' res where r: "retry_loop body pause (ks @ rest) = (ev'', res)"
    by (cases "retry_loop body pause (ks @ rest)")
  from assms(1)[of k] b have rb: "runs ev = [k]" by simp
  from assms(2)[of k] p have rp: "runs ev' = []" by simp
  from Cons r have "runs ev'' = ks @ runs (fst (retry_loop body pause rest))"
    "res = snd (retry_loop body pause rest)" by simp_all
  with b p r rb rp show ?case by simp
qed

text \<open>The iterations that ran are an initial segment of the range.\<close>

lemma retry_loop_prefix:
  assumes "\<And>k. runs (fst (body k)) = [k]" and "\<And>k. runs (fst (pause k)) = []"
  shows "\<exists>m \<le> length ks. runs (fst (retry_loop body pause ks)) = take m ks"
proof (induction ks)
  case Nil
  show ?case by simp
next
  case (Cons k ks)
  obtain ev b where b: "body k = (ev, b)" by (cases "body k")
  obtain ev' x where p: "pause k = (ev', x)" by (cases "pause k")
  obtain ev'' res where r: "retry_loop body pause ks = (ev'', res)"
    by (cases "retry_loop body pause ks")
  from assms(1)[of k] b have rb: "runs ev = [k]" by simp
  from assms(2)[of k] p have rp: "runs ev' = []" by simp
  from Cons r obtain m where m: "m \<le> length ks" "runs ev'' = take m ks" by auto
  show ?case
  proof (cases "b = Inr False \<and> x = None")
    case True
    with b p r rb rp m have "runs (fst (retry_loop body pause (k # ks))) = take (Suc m) (k # ks)"
      by simp
    with m(1) show ?thesis by (intro exI[of _ "Suc m"]) simp
  next
    case False
    with b p rb rp have "runs (fst (retry_loop body pause (k # ks))) = take (Suc 0) (k # ks)"
      by (cases b; cases x) auto
    then show ?thesis by (intro exI[of _ "Suc 0"]) simp
  qed
qed

lemma take_upto: "m \<le> nat (j - i + 1) \<Longrightarrow> take m [i..j] = [i..i + int m - 1]"
proof (induction m arbitrary: i)
  case 0
  show ?case by simp
next
  case (Suc m)
  then have le: "i \<le> j" by simp
  from Suc.prems have "m \<le> nat (j - (i + 1) + 1)" by simp
  from Suc.IH[OF this] have "take m [i + 1..j] = [i + 1..i + 1 + int m - 1]" .
  moreover have "[i..i + int (Suc m) - 1] = i # [i + 1..i + 1 + int m - 1]"
    by (simp add: upto_rec1[of i "i + int m"])
  ultimately show ?case using le by (simp add: upto_rec1[of i j])
qed

text \<open>The loop looks at the verdict of a body only, not at how the attempt failed.\<close>

lemma retry_loop_same_verdicts:
  assumes "\<forall>k \<in> set ks. snd (body k) = snd (body' k) \<and>
             runs (fst (body k)) = runs (fst (body' k)) \<and>
             sleeps (fst (body k)) = sleeps (fst (body' k))"
  shows "snd (retry_loop body pause ks) = snd (retry_loop body' pause ks) \<and>
         runs (fst (retry_loop body pause ks)) = runs (fst (retry_loop body' pause ks)) \<and>
         sleeps (fst (retry_loop body pause ks)) = sleeps (fst (retry_loop body' pause ks))"
  using assms
proof (induction ks)
  case Nil
  show ?case by simp
next
  case (Cons k ks)
  obtain ev b where b: "body k = (ev, b)" by (cases "body k")
  obtain ev1 b1 where b1: "body' k = (ev1, b1)" by (cases "body' k")
  obtain ev' x where p: "pause k = (ev', x)" by (cases "pause k")
  obtain ev'' res where r: "retry_loop body pause ks = (ev'', res)"
    by (cases "retry_loop body pause ks")
  obtain ev2 res2 where r2: "retry_loop body' pause ks = (ev2, res2)"
    by (cases "retry_loop body' pause ks")
  from Cons.prems b b1 have same: "b1 = b" "runs ev1 = runs ev" "sleeps ev1 = sleeps ev"
    by simp_all
  from Cons r r2 have ih: "res2 = res" "runs ev2 = runs ev''" "sleeps ev2 = sleeps ev''"
    by simp_all
  show ?case
    using b b1 p r r2 same ih by (cases b; cases x) simp_all
qed

text \<open>After a failed iteration whose pause returns, the next iteration runs.\<close>

lemma retry_loop_next:
  assumes "\<And>k. runs (fst (body k)) = [k]" and "\<And>k. runs (fst (pause k)) = []"
    and "k \<notin> set pre"
    and "k \<in> set (runs (fst (retry_loop body pause (pre @ k # n # post))))"
    and "snd (body k) = Inr False" and "snd (pause k) = None"
  shows "n \<in> set (runs (fst (retry_loop body pause (pre @ k # n # post))))"
  using assms(3,4)
proof (induction pre)
  case Nil
  obtain ev where b: "body k = (ev, Inr False)" using assms(5) by (cases "body k") auto
  obtain ev' where p: "pause k = (ev', None)" using assms(6) by (cases "pause k") auto
  obtain evn bn where bn: "body n = (evn, bn)" by (cases "body n")
  from assms(1)[of n] bn have rn: "runs evn = [n]" by simp
  obtain ev2 x2 where pn: "pause n = (ev2, x2)" by (cases "pause n")
  obtain ev3 r3 where r: "retry_loop body pause post = (ev3, r3)"
    by (cases "retry_loop body pause post")
  show ?case using b p bn rn pn r by (cases bn; cases x2) simp_all
next
  case (Cons a pre)
  then have ne: "k \<noteq> a" and notin: "k \<notin> set pre" by auto
  obtain ev b where b: "body a = (ev, b)" by (cases "body a")
  obtain ev' x where p: "pause a = (ev', x)" by (cases "pause a")
  obtain ev'' res where r: "retry_loop body pause (pre @ k # n # post) = (ev'', res)"
    by (cases "retry_loop body pause (pre @ k # n # post)")
  from assms(1)[of a] b have rb: "runs ev = [a]" by simp
  from assms(2)[of a] p have rp: "runs ev' = []" by simp
  have cont: "b = Inr False \<and> x = None"
  proof (rule ccontr)
    assume "\<not> (b = Inr False \<and> x = None)"
    with b p rb rp have "runs (fst (retry_loop body pause ((a # pre) @ k # n # post))) = [a]"
      by (cases b; cases x) auto
    with Cons.prems(2) ne show False by simp
  qed
  with b p r rb rp have eq: "runs (fst (retry_loop body pause ((a # pre) @ k # n # post))) =
      a # runs ev''" by simp
  with Cons.prems(2) ne have "k \<in> set (runs ev'')" by simp
  with Cons.IH[OF notin] r have "n \<in> set (runs ev'')" by simp
  with eq show ?case by simp
qed

text \<open>How the trace ends: on success with the last event of the successful body, on
  exhaustion with the sleep of the last iteration and the final message.\<close>

lemma retry_loop_success_last:
  assumes "\<And>k. snd (body k) = Inr True \<Longrightarrow> fst (body k) \<noteq> [] \<and> last (fst (body k)) = e"
    and "snd (retry_loop body pause ks) = Returned True"
  shows "fst (retry_loop body pause ks) \<noteq> [] \<and> last (fst (retry_loop body pause ks)) = e"
  using assms(2)
proof (induction ks)
  case Nil
  then show ?case by simp
next
  case (Cons k ks)
  obtain ev b where b: "body k = (ev, b)" by (cases "body k")
  obtain ev' x where p: "pause k = (ev', x)" by (cases "pause k")
  obtain ev'' res where r: "retry_loop body pause ks = (ev'', res)"
    by (cases "retry_loop body pause ks")
  show ?case
  proof (cases "b = Inr True")
    case True
    with assms(1)[of k] b show ?thesis by simp
  next
    case False
    with Cons.prems b p r have bf: "b = Inr False" and x: "x = None"
      and res: "res = Returned True"
      by (cases b; cases x; auto)+
    with Cons.IH r have "ev'' \<noteq> [] \<and> last ev'' = e" by simp
    with bf b p r x show ?thesis by simp
  qed
qed

lemma retry_loop_exhausted_last:
  assumes "\<And>k ev. pause k = (ev, None) \<Longrightarrow> \<exists>pre t. ev = pre @ [Sleep t]"
    and "ks \<noteq> []"
    and "snd (retry_loop body pause ks) = Returned False"
  shows "\<exists>pre t. fst (retry_loop body pause ks) = pre @ [Sleep t, Print MaxAttemptsReached]"
  using assms(2,3)
proof (induction ks)
  case Nil
  then show ?case by simp
next
  case (Cons k ks)
  obtain ev b where b: "body k = (ev, b)" by (cases "body k")
  obtain ev' x where p: "pause k = (ev', x)" by (cases "pause k")
  obtain ev'' res where r: "retry_loop body pause ks = (ev'', res)"
    by (cases "retry_loop body pause ks")
  from Cons.prems(2) b p r have nb: "b = Inr False" and x: "x = None"
    and res: "res = Returned False"
    by (cases b; cases x; auto split: if_splits)+
  from assms(1)[of k ev'] p x obtain pre t where ev': "ev' = pre @ [Sleep t]" by auto
  show ?case
  proof (cases ks)
    case Nil
    with b p nb x ev' have "fst (retry_loop body pause (k # ks)) =
        (ev @ pre) @ [Sleep t, Print MaxAttemptsReached]" by simp
    then show ?thesis by blast
  next
    case (Cons a as)
    with Cons.IH r res obtain pre' t' where "ev'' = pre' @ [Sleep t', Print MaxAttemptsReached]"
      by auto
    with b p nb x r have "fst (retry_loop body pause (k # ks)) =
        (ev @ ev' @ pre') @ [Sleep t', Print MaxAttemptsReached]" by simp
    then show ?thesis by blast
  qed
qed

subsection \<open>The code after the \<^verbatim>\<open>try\<close> statement\<close>

text \<open>
  It raises nothing up to iteration 1024 when the delays are not negative, the draw is in
  the unit interval and \<^verbatim>\<open>time.sleep\<close> accepts the durations up to the cap plus the jitter;
  it then sleeps for the capped delay of the specification with the multiplier 2, plus the
  jitter.
\<close>

lemma backoff_sleep_formula:
  assumes "k \<le> 1024" and "0 \<le> delay" and "0 \<le> max_delay"
    and "0 \<le> rnd k" and "rnd k < 1"
    and "sleep_accepts rt (max_delay + max 0 jitter)"
  shows "\<exists>x. backoff_sleep rt rnd delay max_delay jitter k =
           ([Print (Sleeping (spec_capped_delay delay 2 max_delay k + x)),
             Sleep (spec_capped_delay delay 2 max_delay k + x)], None) \<and>
         0 \<le> x \<and> (if 0 < jitter then x < jitter else x = 0)"
proof -
  define c where "c = min (delay * 2 ^ nat (k - 1)) max_delay"
  have c: "0 \<le> c" "c \<le> max_delay" using assms(2,3) by (simp_all add: c_def)
  have s: "spec_capped_delay delay 2 max_delay k = c"
    by (simp add: spec_capped_delay_def c_def)
  show ?thesis
  proof (cases "0 < jitter")
    case True
    with assms(4,5) have x: "0 \<le> jitter * rnd k" "jitter * rnd k < jitter" by simp_all
    with c True have "0 \<le> c + jitter * rnd k" "c + jitter * rnd k \<le> max_delay + max 0 jitter"
      by simp_all
    with assms(6) have "time_sleep rt (c + jitter * rnd k) = None"
      by (simp add: time_sleep_def sleep_accepts_def)
    with True assms(1) have "backoff_sleep rt rnd delay max_delay jitter k =
        ([Print (Sleeping (c + jitter * rnd k)), Sleep (c + jitter * rnd k)], None)"
      unfolding backoff_sleep_def Let_def uniform_def c_def by simp
    with True x s show ?thesis by (intro exI[of _ "jitter * rnd k"]) simp
  next
    case False
    with c have "0 \<le> c" "c \<le> max_delay + max 0 jitter" by simp_all
    with assms(6) have "time_sleep rt c = None"
      by (simp add: time_sleep_def sleep_accepts_def)
    with False assms(1) have "backoff_sleep rt rnd delay max_delay jitter k =
        ([Print (Sleeping c), Sleep c], None)"
      unfolding backoff_sleep_def Let_def c_def by simp
    with False s show ?thesis by (intro exI[of _ 0]) simp
  qed
qed

lemma backoff_sleep_returns:
  assumes "k \<le> 1024" and "0 \<le> delay" and "0 \<le> max_delay"
    and "0 \<le> rnd k" and "rnd k < 1"
    and "sleep_accepts rt (max_delay + max 0 jitter)"
  shows "snd (backoff_sleep rt rnd delay max_delay jitter k) = None"
  using backoff_sleep_formula[where k = k and rnd = rnd and delay = delay
      and max_delay = max_delay and jitter = jitter and rt = rt] assms
  by auto

subsection \<open>Running the model on concrete inputs\<close>

lemma strip_Nil [simp]: "strip [] = []"
  by (simp add: strip_def)

lemma sleep_accepts_small_runtime:
  "limit \<le> 9000000000 \<Longrightarrow> sleep_accepts small_runtime limit"
  by (simp add: sleep_accepts_def small_runtime_def)

lemmas run_simps =
  main_def execute_command_def attempt_body_def backoff_sleep_def time_sleep_def
  evaluate_condition_def builtin_eval_def uniform_def default_args_def default_condition_def
  small_runtime_def builtin_exit_def satisfied_def py_order_def Let_def
  upto.simps[of 1 "numeral n" for n] exits_with_def zero_draws_def stdout_has_def
  exit_with_def

subsection \<open>Runs of \<^verbatim>\<open>execute_command\<close>\<close>

text \<open>
  In every run the iterations that called the command are numbered 1, 2, ... without a
  gap, and there are at most \<^verbatim>\<open>attempts\<close> of them.
\<close>

lemma runs_within:
  "set (runs (fst (execute_command rt sys_run rnd command condition attempts delay backoff
                     max_delay jitter timeout))) \<subseteq> {1..attempts}"
proof -
  let ?body = "attempt_body rt sys_run command condition attempts timeout"
  let ?pause = "backoff_sleep rt rnd delay max_delay jitter"
  from retry_loop_prefix[of ?body ?pause "[1..attempts]"]
  obtain m where "runs (fst (retry_loop ?body ?pause [1..attempts])) = take m [1..attempts]"
    by auto
  then show ?thesis
    using set_take_subset[of m "[1..attempts]"] by (simp add: execute_command_def)
qed

lemma attempts_numbered:
  "runs (fst (execute_command rt sys_run rnd command condition attempts delay backoff
                max_delay jitter timeout)) =
     [1..int (length (runs (fst (execute_command rt sys_run rnd command condition attempts
                                   delay backoff max_delay jitter timeout))))] \<and>
   length (runs (fst (execute_command rt sys_run rnd command condition attempts delay backoff
                max_delay jitter timeout))) \<le> nat attempts"
proof -
  let ?body = "attempt_body rt sys_run command condition attempts timeout"
  let ?pause = "backoff_sleep rt rnd delay max_delay jitter"
  from retry_loop_prefix[of ?body ?pause "[1..attempts]"]
  obtain m where m: "m \<le> length [1..attempts]"
    "runs (fst (retry_loop ?body ?pause [1..attempts])) = take m [1..attempts]"
    by auto
  from m(1) have le: "m \<le> nat (attempts - 1 + 1)" by simp
  from take_upto[OF le] have t: "take m [1..attempts] = [1..int m]" by simp
  from m(1) have len: "length (take m [1..attempts]) = m" by simp
  from m(1) have "m \<le> nat attempts" by simp
  with m(2) t len show ?thesis by (simp add: execute_command_def)
qed

text \<open>
  With at most 1024 attempts, delays that are not negative, draws in the unit interval, a
  \<^verbatim>\<open>time.sleep\<close> that accepts the durations up to the cap plus the jitter, and a condition
  whose evaluation raises nothing but subclasses of \<^verbatim>\<open>Exception\<close>, no exception leaves the
  function: it runs the attempts up to the first one whose predicate is satisfied, all of
  them if there is none, and returns whether there was one.
\<close>

lemma attempts_made:
  assumes "attempts \<le> 1024" and "0 \<le> delay" and "0 \<le> max_delay"
    and "\<forall>k. 0 \<le> rnd k \<and> rnd k < 1"
    and "sleep_accepts rt (max_delay + max 0 jitter)"
    and "\<forall>k \<in> {1..attempts}. \<exists>b.
           snd (attempt_body rt sys_run command condition attempts timeout k) = Inr b"
  shows "runs (fst (execute_command rt sys_run rnd command condition attempts delay backoff
                      max_delay jitter timeout)) =
           until_success (satisfied rt sys_run command condition timeout) [1..attempts]"
    and "snd (execute_command rt sys_run rnd command condition attempts delay backoff
                      max_delay jitter timeout) =
           Returned (\<exists>k \<in> {1..attempts}. satisfied rt sys_run command condition timeout k)"
proof -
  let ?body = "attempt_body rt sys_run command condition attempts timeout"
  let ?pause = "backoff_sleep rt rnd delay max_delay jitter"
  have p: "\<forall>k \<in> set [1..attempts]. snd (?pause k) = None \<and> (\<exists>b. snd (?body k) = Inr b)"
    using assms by (simp add: backoff_sleep_returns)
  from retry_loop_no_exception[of ?body ?pause "[1..attempts]", OF _ _ p]
  show "runs (fst (execute_command rt sys_run rnd command condition attempts delay backoff
                      max_delay jitter timeout)) =
           until_success (satisfied rt sys_run command condition timeout) [1..attempts]"
    and "snd (execute_command rt sys_run rnd command condition attempts delay backoff
                      max_delay jitter timeout) =
           Returned (\<exists>k \<in> {1..attempts}. satisfied rt sys_run command condition timeout k)"
    by (simp_all add: execute_command_def snd_attempt_body)
qed

lemma attempts_made_exactly:
  assumes "1 \<le> attempts" and "attempts \<le> 1024" and "0 \<le> delay" and "0 \<le> max_delay"
    and "\<forall>k. 0 \<le> rnd k \<and> rnd k < 1"
    and "sleep_accepts rt (max_delay + max 0 jitter)"
    and "\<forall>k \<in> {1..attempts}. \<exists>b.
           snd (attempt_body rt sys_run command condition attempts timeout k) = Inr b"
  shows "runs (fst (execute_command rt sys_run rnd command condition attempts delay backoff
                      max_delay jitter timeout)) =
           [1..(case List.find (satisfied rt sys_run command condition timeout) [1..attempts] of
                  Some s \<Rightarrow> s | None \<Rightarrow> attempts)]"
  using attempts_made(1)[OF assms(2-7)] until_success_upto[OF assms(1)] by simp

text \<open>
  A run that returns \<^verbatim>\<open>True\<close> ends with the message of the successful attempt: nothing,
  and no sleep, follows it. A run that returns \<^verbatim>\<open>False\<close> after at least one attempt ends
  with a sleep and the final message.
\<close>

lemma no_sleep_after_success:
  assumes "snd (execute_command rt sys_run rnd command condition attempts delay backoff
                  max_delay jitter timeout) = Returned True"
  shows "last (fst (execute_command rt sys_run rnd command condition attempts delay backoff
                  max_delay jitter timeout)) = Print ConditionMet"
proof -
  let ?body = "attempt_body rt sys_run command condition attempts timeout"
  have "\<And>k. snd (?body k) = Inr True \<Longrightarrow>
          fst (?body k) \<noteq> [] \<and> last (fst (?body k)) = Print ConditionMet"
    by (auto simp: attempt_body_def split: proc_result.splits prod.splits sum.splits if_splits)
  from retry_loop_success_last[of ?body "Print ConditionMet", OF this] assms
  show ?thesis by (simp add: execute_command_def)
qed

lemma sleep_before_exhaustion:
  assumes "1 \<le> attempts"
    and "snd (execute_command rt sys_run rnd command condition attempts delay backoff
                  max_delay jitter timeout) = Returned False"
  shows "\<exists>pre t. fst (execute_command rt sys_run rnd command condition attempts delay backoff
                  max_delay jitter timeout) = pre @ [Sleep t, Print MaxAttemptsReached]"
proof -
  let ?pause = "backoff_sleep rt rnd delay max_delay jitter"
  have p: "\<And>k ev. ?pause k = (ev, None) \<Longrightarrow> \<exists>pre t. ev = pre @ [Sleep t]"
    by (auto simp: backoff_sleep_def Let_def split: if_splits option.splits)
  from assms(1) have ne: "[1..attempts] \<noteq> []" by simp
  from retry_loop_exhausted_last[of ?pause "[1..attempts]", OF p ne] assms(2)
  show ?thesis by (simp add: execute_command_def)
qed

text \<open>The default condition and an unparsable one.\<close>

lemma default_condition_raises:
  "rt_builtins rt ''result'' = None \<Longrightarrow>
     evaluate_condition rt stdout stderr default_condition =
       ([Print (ErrorEvaluating (NameError ''result''))], Inr (VBool False))"
  by (simp add: evaluate_condition_def builtin_eval_def default_condition_def)

lemma unparsable_body:
  "\<exists>ev. attempt_body rt sys_run command Unparsable attempts timeout k = (ev, Inr False)"
  by (simp add: attempt_body_def evaluate_condition_def builtin_eval_def
      split: proc_result.splits)

lemma unparsable_never_satisfied:
  "\<not> satisfied rt sys_run command Unparsable timeout k"
  by (simp add: satisfied_def evaluate_condition_def builtin_eval_def split: proc_result.splits)

text \<open>An expression of the specification's grammar produces no event.\<close>

lemma spec_grammar_no_events:
  "spec_grammar e \<Longrightarrow> fst (py_eval rt g e) = []"
  by (induction e rule: spec_grammar.induct)
     (auto split: prod.splits sum.splits option.splits)

subsection \<open>C1: the default predicate\<close>

text \<open>
  C1 says that the default predicate is satisfied exactly when the process exits with
  status 0. In the program the default condition \<^verbatim>\<open>result.returncode == 0\<close> is evaluated
  with globals that bind \<^verbatim>\<open>stdout\<close> and \<^verbatim>\<open>stderr\<close> only: the name \<^verbatim>\<open>result\<close> raises
  \<^verbatim>\<open>NameError\<close>, which \<^verbatim>\<open>evaluate_condition\<close> turns into \<^verbatim>\<open>False\<close>. So the predicate is not
  satisfied on a process that exits with 0, whatever its output, and the run of the command
  \<^verbatim>\<open>true\<close> with all defaults makes its five attempts and exits with status 1.
\<close>

theorem default_condition_on_exit_0:
  "evaluate_condition small_runtime stdout stderr default_condition =
     ([Print (ErrorEvaluating (NameError ''result''))], Inr (VBool False)) \<and>
   \<not> satisfied small_runtime (exits_with 0 stdout stderr) command default_condition timeout k \<and>
   runs (fst (main small_runtime (exits_with 0 [] []) zero_draws (default_args [''true''])))
     = [1, 2, 3, 4, 5] \<and>
   snd (main small_runtime (exits_with 0 [] []) zero_draws (default_args [''true''])) = 1"
proof -
  have 1: "evaluate_condition small_runtime stdout stderr default_condition =
     ([Print (ErrorEvaluating (NameError ''result''))], Inr (VBool False))"
    by (simp add: default_condition_raises small_runtime_def)
  have 2: "\<not> satisfied small_runtime (exits_with 0 stdout stderr) command default_condition timeout k"
    by (simp add: satisfied_def exits_with_def 1)
  have 3: "runs (fst (main small_runtime (exits_with 0 [] []) zero_draws (default_args [''true''])))
     = [1, 2, 3, 4, 5]"
    by (simp add: run_simps)
  have 4: "snd (main small_runtime (exits_with 0 [] []) zero_draws (default_args [''true''])) = 1"
    by (simp add: run_simps)
  from 1 2 3 4 show ?thesis by blast
qed

subsection \<open>C2: the delay\<close>

text \<open>
  C2 says that the delay after attempt \<open>k\<close> is
  \<^verbatim>\<open>min(initialDelay * backoffMultiplier^(k-1), maxDelay)\<close> plus the jitter. The program
  uses the constant 2 in place of the multiplier. With \<^verbatim>\<open>-d 1 -b 3 -m 30 -j 0.5\<close> and a
  generator that draws 0, the program sleeps 1, 2 and 4 seconds after its three failed
  attempts; the delay of the specification after attempt 2 is 3, so the claim wants a sleep
  in the interval from 3 to 3.5 there.
\<close>

theorem backoff_3_sleeps:
  "sleeps (fst (execute_command small_runtime (exits_with 1 [] []) zero_draws [''false'']
            (stdout_has ''ok'') 3 1 3 30 (1/2) 10)) = [1, 2, 4] \<and>
   spec_capped_delay 1 3 30 2 = 3"
  by (simp add: run_simps spec_capped_delay_def)

subsection \<open>C3: a malformed condition\<close>

text \<open>
  C3 as stated, that a malformed condition aborts the run before any attempt, fails: with
  two attempts and a condition that does not parse, the command runs twice.
\<close>

theorem malformed_condition_runs:
  "runs (fst (execute_command small_runtime (exits_with 0 [] []) zero_draws [''true'']
            Unparsable 2 1 2 30 0 10)) = [1, 2]"
  by (simp add: run_simps)

text \<open>
  C3, amended. A malformed condition is not detected at startup. Each evaluation raises
  \<^verbatim>\<open>SyntaxError\<close>, which is reported and counted as a condition that is not met. With
  between 1 and 1024 attempts, delays that are not negative, draws in the unit interval
  and a \<^verbatim>\<open>time.sleep\<close> that accepts the durations up to the cap plus the jitter, the command
  is run in every one of the attempts and the function returns \<^verbatim>\<open>False\<close>.
\<close>

theorem malformed_condition_is_retried:
  assumes "1 \<le> attempts" and "attempts \<le> 1024" and "0 \<le> delay" and "0 \<le> max_delay"
    and "\<forall>k. 0 \<le> rnd k \<and> rnd k < 1"
    and "sleep_accepts rt (max_delay + max 0 jitter)"
  shows "evaluate_condition rt stdout stderr Unparsable =
           ([Print (ErrorEvaluating SyntaxError)], Inr (VBool False)) \<and>
         runs (fst (execute_command rt sys_run rnd command Unparsable attempts delay backoff
                      max_delay jitter timeout)) = [1..attempts] \<and>
         snd (execute_command rt sys_run rnd command Unparsable attempts delay backoff
                      max_delay jitter timeout) = Returned False"
proof -
  have b: "\<forall>k \<in> {1..attempts}. \<exists>b.
      snd (attempt_body rt sys_run command Unparsable attempts timeout k) = Inr b"
    using unparsable_body[of rt sys_run command attempts timeout] by (metis snd_conv)
  from attempts_made[OF assms(2-6) b, of backoff]
  show ?thesis
    by (simp add: unparsable_never_satisfied until_success_never evaluate_condition_def
        builtin_eval_def)
qed

theorem malformed_condition_is_retried_witness:
  "(1::int) \<le> 3 \<and> (3::int) \<le> 1024 \<and> (0::real) \<le> 1 \<and> (0::real) \<le> 30 \<and>
   (\<forall>k. 0 \<le> zero_draws k \<and> zero_draws k < 1) \<and> sleep_accepts small_runtime (30 + max 0 0) \<and>
   runs (fst (execute_command small_runtime (exits_with 0 [] []) zero_draws [''true'']
                Unparsable 3 1 2 30 0 10)) = [1, 2, 3] \<and>
   snd (execute_command small_runtime (exits_with 0 [] []) zero_draws [''true'']
                Unparsable 3 1 2 30 0 10) = Returned False"
proof -
  have d: "\<forall>k. 0 \<le> zero_draws k \<and> zero_draws k < 1" by (simp add: zero_draws_def)
  have s: "sleep_accepts small_runtime (30 + max 0 0)"
    by (rule sleep_accepts_small_runtime) simp
  have u: "[1..3::int] = [1, 2, 3]" by (simp add: upto.simps[of 1 "numeral n" for n])
  from malformed_condition_is_retried[where attempts = 3 and delay = 1 and max_delay = 30
      and rnd = zero_draws and rt = small_runtime and jitter = 0
      and sys_run = "exits_with 0 [] []" and command = "[''true'']" and backoff = 2
      and timeout = 10, OF _ _ _ _ d s] d s u
  show ?thesis by simp
qed

subsection \<open>C4: no sleep in the terminal cases\<close>

text \<open>
  C4 says that no sleep occurs after the attempt that satisfies the predicate, nor after the
  final attempt when the attempts are exhausted. The first half holds
  (\<open>no_sleep_after_success\<close>). The second does not: the sleep is outside any test of the
  iteration number, and a run with one attempt that fails prints
  \<^verbatim>\<open>Sleeping for 1.00 seconds before next attempt...\<close>, sleeps one second, and only then
  reports the exhaustion (so does every exhausted run, \<open>sleep_before_exhaustion\<close>).
\<close>

theorem sleep_after_final_attempt:
  "execute_command small_runtime (exits_with 1 [] []) zero_draws [''false'']
     (stdout_has ''ok'') 1 1 2 30 0 10 =
   ([Run 1 [''false''] 10, Print (AttemptHeader 1 1), Print (CommandLine [''false'']),
     Print (ExitCode 1), Print (StdoutText []), Print (StderrText []), Print ConditionNotMet,
     Print (Sleeping 1), Sleep 1, Print MaxAttemptsReached], Returned False)"
  by (simp add: run_simps)

subsection \<open>C5: the number of attempts\<close>

text \<open>
  C5 says that a run with at least one attempt runs the command exactly up to the first
  attempt whose predicate is satisfied, or exactly \<^verbatim>\<open>attempts\<close> times if there is none. It
  holds up to 1024 attempts when no exception leaves the loop for another reason
  (\<open>attempts_made_exactly\<close>), and in every run the attempts are numbered from 1 without a
  gap and are at most \<^verbatim>\<open>attempts\<close> (\<open>attempts_numbered\<close>). But in iteration 1025 the product
  \<^verbatim>\<open>delay * (2 ** 1024)\<close> raises \<^verbatim>\<open>OverflowError\<close> outside any \<^verbatim>\<open>try\<close>: with
  \<^verbatim>\<open>-a 1026 -d 0 -m 0\<close> and a command that always fails, the command runs 1025 times, not
  1026, and the exception leaves the function.
\<close>

theorem overflow_after_1025_attempts:
  "runs (fst (execute_command small_runtime (exits_with 1 [] []) zero_draws [''false'']
            (stdout_has ''ok'') 1026 0 2 0 0 10)) = [1..1025] \<and>
   snd (execute_command small_runtime (exits_with 1 [] []) zero_draws [''false'']
            (stdout_has ''ok'') 1026 0 2 0 0 10) = Raised OverflowError"
proof -
  let ?body = "attempt_body small_runtime (exits_with 1 [] []) [''false''] (stdout_has ''ok'') 1026 10"
  let ?pause = "backoff_sleep small_runtime zero_draws 0 0 0"
  have split: "[1..1026::int] = [1..1024] @ [1025, 1026]"
    using upto_split2[of 1 1024 1026] by (simp add: upto.simps[of 1025 1026] upto.simps[of 1026 1026])
  have b: "\<And>k. snd (?body k) = Inr False"
    by (simp add: attempt_body_def exits_with_def stdout_has_def evaluate_condition_def
        builtin_eval_def)
  have s: "sleep_accepts small_runtime (0 + max 0 0)"
    by (rule sleep_accepts_small_runtime) simp
  have f: "\<forall>k \<in> set [1..1024]. snd (?body k) = Inr False \<and> snd (?pause k) = None"
    using b backoff_sleep_returns[OF _ _ _ _ _ s, of _ 0 zero_draws]
    by (simp add: zero_draws_def)
  have last: "runs (fst (retry_loop ?body ?pause [1025, 1026])) = [1025] \<and>
              snd (retry_loop ?body ?pause [1025, 1026]) = Raised OverflowError"
    by (simp add: attempt_body_def backoff_sleep_def exits_with_def stdout_has_def
        evaluate_condition_def builtin_eval_def)
  have u: "[1..1025::int] = [1..1024] @ [1025]"
    using upto_rec2[of 1 1025] by simp
  from retry_loop_append[of ?body ?pause "[1..1024]" "[1025, 1026]", OF _ _ f] last split u
  show ?thesis by (simp add: execute_command_def)
qed

subsection \<open>C6: the exit status\<close>




subsection \<open>C7: invocation errors and timeouts\<close>

text \<open>
  C7. When \<^verbatim>\<open>subprocess.run\<close> raises in iteration \<open>k\<close>, by a timeout or by any other
  exception (command not found, permission denied, failure to spawn), no exception leaves
  the \<^verbatim>\<open>try\<close> statement: the attempt is reported and counted as failed. The run then goes
  on as after any other failed attempt: it has the same result, the same attempts and the
  same sleeps as the run in which the process of iteration \<open>k\<close> completed with an
  unsatisfied predicate; and while attempts remain, once the pause after iteration \<open>k\<close> has
  returned, iteration \<open>k + 1\<close> runs the command.
\<close>

theorem failed_invocation_is_retried:
  assumes "sys_run command timeout k = TimeoutExpired \<or> (\<exists>e. sys_run command timeout k = RunError e)"
  shows "(\<exists>m. attempt_body rt sys_run command condition attempts timeout k =
               ([Run k command timeout, Print m], Inr False)) \<and>
    ((\<exists>v. snd (evaluate_condition rt stdout stderr condition) = Inr v \<and> \<not> truthy v) \<longrightarrow>
       snd (execute_command rt sys_run rnd command condition attempts delay backoff
              max_delay jitter timeout) =
       snd (execute_command rt (replace_result sys_run k (Completed returncode stdout stderr))
              rnd command condition attempts delay backoff max_delay jitter timeout) \<and>
       runs (fst (execute_command rt sys_run rnd command condition attempts delay backoff
              max_delay jitter timeout)) =
       runs (fst (execute_command rt (replace_result sys_run k (Completed returncode stdout stderr))
              rnd command condition attempts delay backoff max_delay jitter timeout)) \<and>
       sleeps (fst (execute_command rt sys_run rnd command condition attempts delay backoff
              max_delay jitter timeout)) =
       sleeps (fst (execute_command rt (replace_result sys_run k (Completed returncode stdout stderr))
              rnd command condition attempts delay backoff max_delay jitter timeout))) \<and>
    (k < attempts \<and>
     k \<in> set (runs (fst (execute_command rt sys_run rnd command condition attempts delay
                           backoff max_delay jitter timeout))) \<and>
     snd (backoff_sleep rt rnd delay max_delay jitter k) = None \<longrightarrow>
       k + 1 \<in> set (runs (fst (execute_command rt sys_run rnd command condition attempts delay
                                 backoff max_delay jitter timeout))))"
proof (intro conjI impI)
  show "\<exists>m. attempt_body rt sys_run command condition attempts timeout k =
               ([Run k command timeout, Print m], Inr False)"
    using assms by (auto simp: attempt_body_def)
next
  let ?sys' = "replace_result sys_run k (Completed returncode stdout stderr)"
  let ?body = "attempt_body rt sys_run command condition attempts timeout"
  let ?body' = "attempt_body rt ?sys' command condition attempts timeout"
  let ?pause = "backoff_sleep rt rnd delay max_delay jitter"
  assume f: "\<exists>v. snd (evaluate_condition rt stdout stderr condition) = Inr v \<and> \<not> truthy v"
  have other: "\<And>j. j \<noteq> k \<Longrightarrow> ?body' j = ?body j"
    by (simp add: attempt_body_def replace_result_def)
  have "snd (?body k) = Inr False" using assms by (auto simp: attempt_body_def)
  moreover have "snd (?body' k) = Inr False"
    using f by (auto simp: attempt_body_def replace_result_def split: prod.splits)
  ultimately have at_k: "snd (?body k) = snd (?body' k)" by simp
  have same: "\<forall>j \<in> set [1..attempts]. snd (?body j) = snd (?body' j) \<and>
             runs (fst (?body j)) = runs (fst (?body' j)) \<and>
             sleeps (fst (?body j)) = sleeps (fst (?body' j))"
  proof
    fix j assume "j \<in> set [1..attempts]"
    show "snd (?body j) = snd (?body' j) \<and> runs (fst (?body j)) = runs (fst (?body' j)) \<and>
             sleeps (fst (?body j)) = sleeps (fst (?body' j))"
      using at_k other[of j] by (cases "j = k") simp_all
  qed
  from retry_loop_same_verdicts[OF same, of ?pause]
  show "snd (execute_command rt sys_run rnd command condition attempts delay backoff
              max_delay jitter timeout) =
       snd (execute_command rt ?sys' rnd command condition attempts delay backoff max_delay
              jitter timeout)"
    and "runs (fst (execute_command rt sys_run rnd command condition attempts delay backoff
              max_delay jitter timeout)) =
       runs (fst (execute_command rt ?sys' rnd command condition attempts delay backoff
              max_delay jitter timeout))"
    and "sleeps (fst (execute_command rt sys_run rnd command condition attempts delay backoff
              max_delay jitter timeout)) =
       sleeps (fst (execute_command rt ?sys' rnd command condition attempts delay backoff
              max_delay jitter timeout))"
    by (simp_all add: execute_command_def)
next
  let ?body = "attempt_body rt sys_run command condition attempts timeout"
  let ?pause = "backoff_sleep rt rnd delay max_delay jitter"
  let ?tr = "fst (execute_command rt sys_run rnd command condition attempts delay
                           backoff max_delay jitter timeout)"
  assume a: "k < attempts \<and> k \<in> set (runs ?tr) \<and> snd (?pause k) = None"
  with runs_within[of rt sys_run rnd command condition attempts delay backoff max_delay
      jitter timeout] have k1: "1 \<le> k" by auto
  from a k1 have split: "[1..attempts] = [1..k - 1] @ k # (k + 1) # [k + 2..attempts]"
    using upto_split3[of 1 k attempts] upto_rec1[of "k + 1" attempts]
    by (simp add: add.commute)
  have notin: "k \<notin> set [1..k - 1]" by simp
  have fail: "snd (?body k) = Inr False" using assms by (auto simp: attempt_body_def)
  from a have reached: "k \<in> set (runs (fst (retry_loop ?body ?pause
      ([1..k - 1] @ k # (k + 1) # [k + 2..attempts]))))"
    using split by (simp add: execute_command_def)
  from retry_loop_next[of ?body ?pause k "[1..k - 1]" "k + 1" "[k + 2..attempts]",
      OF _ _ notin reached fail] a
  show "k + 1 \<in> set (runs ?tr)"
    using split by (simp add: execute_command_def)
qed

text \<open>
  A command whose first run times out, with three attempts: the second attempt is made.
\<close>

theorem failed_invocation_is_retried_witness:
  "first_times_out [''job''] 10 1 = TimeoutExpired \<and>
   snd (evaluate_condition small_runtime ''no'' [] (stdout_has ''ok'')) = Inr (VBool False) \<and>
   snd (backoff_sleep small_runtime zero_draws 1 30 0 1) = None \<and>
   runs (fst (execute_command small_runtime first_times_out zero_draws [''job'']
                (stdout_has ''ok'') 3 1 2 30 0 10)) = [1, 2] \<and>
   runs (fst (execute_command small_runtime
                (replace_result first_times_out 1 (Completed 1 ''no'' []))
                zero_draws [''job''] (stdout_has ''ok'') 3 1 2 30 0 10)) = [1, 2] \<and>
   2 \<in> set (runs (fst (execute_command small_runtime first_times_out zero_draws [''job'']
                (stdout_has ''ok'') 3 1 2 30 0 10)))"
proof -
  let ?tr = "fst (execute_command small_runtime first_times_out zero_draws [''job'']
                (stdout_has ''ok'') 3 1 2 30 0 10)"
  let ?tr' = "fst (execute_command small_runtime
                (replace_result first_times_out 1 (Completed 1 ''no'' []))
                zero_draws [''job''] (stdout_has ''ok'') 3 1 2 30 0 10)"
  have t: "first_times_out [''job''] 10 1 = TimeoutExpired"
    by (simp add: first_times_out_def)
  then have h: "first_times_out [''job''] 10 1 = TimeoutExpired \<or>
           (\<exists>e. first_times_out [''job''] 10 1 = RunError e)" ..
  have f: "snd (evaluate_condition small_runtime ''no'' [] (stdout_has ''ok'')) =
      Inr (VBool False)"
    by (simp add: run_simps)
  then have f': "\<exists>v. snd (evaluate_condition small_runtime ''no'' [] (stdout_has ''ok'')) = Inr v \<and>
      \<not> truthy v"
    by simp
  have p: "snd (backoff_sleep small_runtime zero_draws 1 30 0 1) = None"
    by (simp add: run_simps)
  have r: "runs ?tr = [1, 2]"
    by (simp add: run_simps first_times_out_def)
  note inst = failed_invocation_is_retried[where sys_run = first_times_out
      and command = "[''job'']" and timeout = 10 and k = 1 and rt = small_runtime
      and condition = "stdout_has ''ok''" and attempts = 3 and stdout = "''no''"
      and stderr = "[]" and rnd = zero_draws and delay = 1 and backoff = 2
      and max_delay = 30 and jitter = 0 and returncode = 1, OF h]
  from inst f' have "runs ?tr = runs ?tr'" by blast
  with r have r': "runs ?tr' = [1, 2]" by simp
  have "(1::int) < 3 \<and> 1 \<in> set (runs ?tr) \<and>
      snd (backoff_sleep small_runtime zero_draws 1 30 0 1) = None"
    using r p by simp
  with inst have "1 + 1 \<in> set (runs ?tr)" by blast
  then have n: "2 \<in> set (runs ?tr)" by simp
  from t f p r r' n show ?thesis by blast
qed

subsection \<open>C8: what evaluating the condition can do\<close>

text \<open>
  C8 as stated, that evaluation has no side effect and executes nothing beyond the
  restricted grammar, fails: the condition \<^verbatim>\<open>print('pwned')\<close> is outside the grammar, is
  evaluated, and the call acts on the world.
\<close>

theorem print_in_condition:
  "\<not> spec_grammar (Call (Name ''print'') [Constant (VStr ''pwned'')]) \<and>
   effects (fst (evaluate_condition small_runtime ''out'' ''err''
                   (Parsed (Call (Name ''print'') [Constant (VStr ''pwned'')])))) =
     [Effect ''print'' [VStr ''pwned'']]"
  by (simp add: run_simps)

text \<open>
  C8, amended. The condition is evaluated by Python's \<^verbatim>\<open>eval\<close> with globals that bind
  \<^verbatim>\<open>stdout\<close> and \<^verbatim>\<open>stderr\<close>. For an expression of the restricted grammar over these two
  names and literals, the evaluation produces no event and has no side effect, whatever
  the captured output is and whatever the runtime is.
\<close>

theorem grammar_has_no_effects:
  assumes "spec_grammar e"
  shows "fst (builtin_eval rt (Parsed e) g) = [] \<and>
     effects (fst (evaluate_condition rt stdout stderr (Parsed e))) = []"
proof -
  let ?g = "[''stdout'' \<mapsto> VStr stdout, ''stderr'' \<mapsto> VStr stderr]"
  obtain ev r where e: "py_eval rt ?g e = (ev, r)" by (cases "py_eval rt ?g e")
  with spec_grammar_no_events[OF assms, of rt ?g] have "ev = []" by simp
  with e have "effects (fst (evaluate_condition rt stdout stderr (Parsed e))) = []"
    by (simp add: evaluate_condition_def builtin_eval_def split: sum.splits if_splits)
  with spec_grammar_no_events[OF assms, of rt g] show ?thesis
    by (simp add: builtin_eval_def)
qed

theorem grammar_has_no_effects_witness:
  "spec_grammar (BoolAnd (Compare (Constant (VStr ''hello'')) In (Name ''stdout''))
                        (Not (Compare (Name ''stderr'') Lt (Constant (VInt 1))))) \<and>
   effects (fst (evaluate_condition small_runtime ''hello world'' ''warning''
     (Parsed (BoolAnd (Compare (Constant (VStr ''hello'')) In (Name ''stdout''))
                      (Not (Compare (Name ''stderr'') Lt (Constant (VInt 1)))))))) = []"
proof -
  have g: "spec_grammar (BoolAnd (Compare (Constant (VStr ''hello'')) In (Name ''stdout''))
                        (Not (Compare (Name ''stderr'') Lt (Constant (VInt 1)))))"
    by simp
  from grammar_has_no_effects[OF g, of small_runtime Map.empty "''hello world''" "''warning''"] g
  show ?thesis by blast
qed

subsection \<open>C9: the backoff multiplier is not used\<close>

text \<open>
  C9. Two runs that differ only in the value of \<^verbatim>\<open>-b/--backoff\<close>, with the same command
  behaviour and the same random draws, have the same trace (attempts, sleeps, messages)
  and the same result: \<^verbatim>\<open>execute_command\<close> does not read the parameter, the growth factor
  is the constant 2.
\<close>

theorem backoff_ignored:
  "execute_command rt sys_run rnd command condition attempts delay backoff max_delay jitter timeout =
   execute_command rt sys_run rnd command condition attempts delay backoff' max_delay jitter timeout \<and>
   main rt sys_run rnd (a\<lparr>args_backoff := backoff\<rparr>) = main rt sys_run rnd a"
  by (simp add: execute_command_def main_def)

subsection \<open>C10: zero or negative attempts\<close>

text \<open>
  C10. When \<^verbatim>\<open>attempts\<close> is zero or negative the loop body never runs:
  \<^verbatim>\<open>execute_command\<close> returns \<^verbatim>\<open>False\<close> after the one message
  \<^verbatim>\<open>Maximum attempts reached. Exiting.\<close>, with no run of the command, and for a non-empty
  command the process exits with status 1 with that message only.
\<close>

theorem nonpositive_attempts:
  "attempts \<le> 0 \<Longrightarrow>
     execute_command rt sys_run rnd command condition attempts delay backoff max_delay jitter timeout
       = ([Print MaxAttemptsReached], Returned False) \<and>
     (command \<noteq> [] \<longrightarrow>
        main rt sys_run rnd
          \<lparr>args_command = command, args_attempts = attempts, args_delay = delay,
           args_backoff = backoff, args_max_delay = max_delay, args_jitter = jitter,
           args_timeout = timeout, args_condition = condition\<rparr>
        = ([Print MaxAttemptsReached], 1))"
  by (simp add: execute_command_def main_def)

theorem nonpositive_attempts_witness:
  "(-2::int) \<le> 0 \<and> [''false''] \<noteq> [] \<and>
   execute_command small_runtime (exits_with 1 [] []) zero_draws [''false'']
       default_condition (-2) 1 2 30 0 10
     = ([Print MaxAttemptsReached], Returned False) \<and>
   main small_runtime (exits_with 1 [] []) zero_draws
       \<lparr>args_command = [''false''], args_attempts = -2, args_delay = 1,
        args_backoff = 2, args_max_delay = 30, args_jitter = 0,
        args_timeout = 10, args_condition = default_condition\<rparr>
     = ([Print MaxAttemptsReached], 1)"
  using nonpositive_attempts[of "-2" small_runtime "exits_with 1 [] []" zero_draws
      "[''false'']" default_condition 1 2 30 0 10]
  by simp

end
